theory Spec2Isabelle
  imports Main
begin

section \<open>Values, requests and responses\<close>

text \<open>
  The module \<^verbatim>\<open>apps/api/main.py\<close> builds one FastAPI application object, registers one
  handler on it and, when run as a script, hands the application to uvicorn.  The Python
  values that occur are strings and one dictionary literal; \<open>PyOpaque\<close> stands for a
  value whose structure is not looked at (a document the framework generates by itself).
\<close>

datatype pyval =
    PyStr string
  | PyDict "(string \<times> pyval) list"
  | PyOpaque string

datatype py_error = PyException string

text \<open>
  What a handler can see of a request: the method and the path the route is matched on,
  and, apart from them, the query string, the headers and the body.
\<close>

record request =
  req_method :: string
  req_path :: string
  query_string :: string
  req_headers :: "(string \<times> string) list"
  req_body :: string

record response =
  status_code :: nat
  content :: "pyval option"

section \<open>The application object\<close>

text \<open>
  A handler object is stored in the route table; it is named here by a tag.
  \<open>ReadRoot\<close> is the function \<^verbatim>\<open>read_root\<close> of the module, \<open>FrameworkEndpoint n\<close> a
  handler that the framework installs by itself.
\<close>

datatype endpoint = ReadRoot | FrameworkEndpoint string

record route =
  methods :: "string list"
  route_path :: string
  endpoint :: endpoint

record fastapi =
  title :: string
  description :: string
  version :: string
  routes :: "route list"

text \<open>
  The state a handler runs in: the application object (a module global, reachable from
  every handler), the log lines written so far and the other input and output done so far.
  The response itself is the value returned, not a part of this state.
\<close>

record world =
  the_app :: fastapi
  logged :: "string list"
  io_trace :: "string list"

text \<open>
  The framework is not part of the module.  What the module uses of it and cannot be read
  from the module is a parameter: the routes the constructor \<^verbatim>\<open>FastAPI(...)\<close> installs by
  itself when it is called, as here, with the title, the description and the version
  only, and what the handlers of those routes do.
\<close>

record framework =
  installed :: "route list"
  fw_call :: "string \<Rightarrow> world \<Rightarrow> (py_error + pyval) \<times> world"

text \<open>\<^verbatim>\<open>FastAPI(title=..., description=..., version=...)\<close>\<close>

definition FastAPI :: "framework \<Rightarrow> string \<Rightarrow> string \<Rightarrow> string \<Rightarrow> fastapi" where
  "FastAPI fw t d v =
     \<lparr>title = t, description = d, version = v, routes = installed fw\<rparr>"

text \<open>
  \<^verbatim>\<open>@app.get(path)\<close> applied to a function: one route for the method GET on that path is
  added at the end of the table of the application.
\<close>

definition app_get :: "string \<Rightarrow> endpoint \<Rightarrow> fastapi \<Rightarrow> fastapi" where
  "app_get p f a =
     a\<lparr>routes := routes a @ [\<lparr>methods = [''GET''], route_path = p, endpoint = f\<rparr>]\<rparr>"

section \<open>The module\<close>

text \<open>
  \<^verbatim>\<open>async def read_root(): return {"message": "Welcome to the FastAPI Example!"}\<close>

  The function takes no argument and reads no global; it is given the state and returns
  it with its result.  A raised exception would be the \<open>Inl\<close> branch.  The function
  is a coroutine function; its value here is the value that awaiting it gives, and the
  awaiting is done by the server that hosts the application.
\<close>

definition read_root :: "world \<Rightarrow> (py_error + pyval) \<times> world" where
  "read_root w = (Inr (PyDict [(''message'', PyStr ''Welcome to the FastAPI Example!'')]), w)"

text \<open>The module level statements up to the decorated function: the global \<^verbatim>\<open>app\<close>.\<close>

definition app :: "framework \<Rightarrow> fastapi" where
  "app fw =
     app_get ''/'' ReadRoot
       (FastAPI fw ''FastAPI Example'' ''A simple FastAPI application example'' ''1.0.0'')"

text \<open>
  The process the module runs in: the value of \<^verbatim>\<open>__name__\<close>, the command line, the
  environment variables and the files it could read, by name.  The module reads the first
  of them only.  Its effect besides defining \<^verbatim>\<open>app\<close> is the list of servers it starts:
  \<^verbatim>\<open>uvicorn.run(app, host="0.0.0.0", port=8000)\<close> under the guard on \<^verbatim>\<open>__name__\<close>.
\<close>

record process =
  dunder_name :: string
  argv :: "string list"
  environ :: "(string \<times> string) list"
  files :: "(string \<times> string) list"

datatype effect = UvicornRun fastapi string nat

record module_state =
  global_app :: fastapi
  effects :: "effect list"

definition main :: "framework \<Rightarrow> process \<Rightarrow> module_state" where
  "main fw p =
     \<lparr>global_app = app fw,
      effects = (if dunder_name p = ''__main__''
                 then [UvicornRun (app fw) ''0.0.0.0'' 8000] else [])\<rparr>"

section \<open>Serving a request\<close>

definition call_endpoint ::
  "framework \<Rightarrow> endpoint \<Rightarrow> world \<Rightarrow> (py_error + pyval) \<times> world" where
  "call_endpoint fw e w =
     (case e of ReadRoot \<Rightarrow> read_root w | FrameworkEndpoint n \<Rightarrow> fw_call fw n w)"

text \<open>
  Modelled from the spec: the dispatch of a request to a route is done by the framework
  (FastAPI on Starlette), which is not among the sources.  The spec has it so: a route
  is a (method, path) pair mapped to a handler; a request that matches a route is answered
  with status 200 and the value the handler returns, as JSON; a path that no route has is
  answered with 404, and a path that a route has, under a method that no route on that
  path has, with 405.  The failure of a handler is left to the framework by the spec; it
  is the status 500 here.  The query string, the headers and the body take no part in the
  matching.
\<close>

definition full_match :: "request \<Rightarrow> route \<Rightarrow> bool" where
  "full_match rq r = (route_path r = req_path rq \<and> req_method rq \<in> set (methods r))"

definition path_match :: "request \<Rightarrow> route \<Rightarrow> bool" where
  "path_match rq r = (route_path r = req_path rq)"

definition handle_request :: "framework \<Rightarrow> world \<Rightarrow> request \<Rightarrow> response \<times> world" where
  "handle_request fw w rq =
     (case find (full_match rq) (routes (the_app w)) of
        Some r \<Rightarrow>
          (case call_endpoint fw (endpoint r) w of
             (Inr v, w') \<Rightarrow> (\<lparr>status_code = 200, content = Some v\<rparr>, w')
           | (Inl e, w') \<Rightarrow> (\<lparr>status_code = 500, content = None\<rparr>, w'))
      | None \<Rightarrow>
          (case find (path_match rq) (routes (the_app w)) of
             Some r \<Rightarrow> (\<lparr>status_code = 405, content = None\<rparr>, w)
           | None \<Rightarrow> (\<lparr>status_code = 404, content = None\<rparr>, w)))"

text \<open>Requests served one after the other, each in the state the one before left.\<close>

fun serve_all :: "framework \<Rightarrow> world \<Rightarrow> request list \<Rightarrow> response list \<times> world" where
  "serve_all fw w [] = ([], w)"
| "serve_all fw w (rq # rqs) =
     (case handle_request fw w rq of
        (resp, w') \<Rightarrow> (case serve_all fw w' rqs of (resps, w'') \<Rightarrow> (resp # resps, w'')))"

text \<open>The state of a service that has just been started and has served nothing yet.\<close>

definition started :: "framework \<Rightarrow> world" where
  "started fw = \<lparr>the_app = app fw, logged = [], io_trace = []\<rparr>"

text \<open>Reading a key of a dictionary value, as \<^verbatim>\<open>d.get(k)\<close> does.\<close>

fun py_get :: "pyval \<Rightarrow> string \<Rightarrow> pyval option" where
  "py_get (PyDict kvs) k = map_of kvs k"
| "py_get (PyStr s) k = None"
| "py_get (PyOpaque s) k = None"

text \<open>
  The document that the framework generates for an application and serves as its schema
  (\<^verbatim>\<open>app.openapi()\<close>): its \<^verbatim>\<open>info\<close> object carries the title, the description and the
  version the application was constructed with.  The version of the schema format and
  the description of the paths are in the document too; they are not looked at here.
\<close>

definition openapi :: "fastapi \<Rightarrow> pyval" where
  "openapi a =
     PyDict
       [(''openapi'', PyOpaque ''openapi''),
        (''info'',
         PyDict
           [(''title'', PyStr (title a)),
            (''description'', PyStr (description a)),
            (''version'', PyStr (version a))]),
        (''paths'', PyOpaque ''paths'')]"

text \<open>
  The routes FastAPI's constructor installs when none of \<^verbatim>\<open>openapi_url\<close>, \<^verbatim>\<open>docs_url\<close> and
  \<^verbatim>\<open>redoc_url\<close> is given, as in this module: the generated schema and the two
  documentation pages, with the page the first of them redirects to.  The handler of the
  first returns the schema document of the application; the pages are documents that are
  not modelled, named here by their paths (they show what the schema document has).
\<close>

definition fastapi_defaults :: framework where
  "fastapi_defaults =
     \<lparr>installed =
        [\<lparr>methods = [''GET'', ''HEAD''], route_path = ''/openapi.json'',
          endpoint = FrameworkEndpoint ''/openapi.json''\<rparr>,
         \<lparr>methods = [''GET'', ''HEAD''], route_path = ''/docs'',
          endpoint = FrameworkEndpoint ''/docs''\<rparr>,
         \<lparr>methods = [''GET'', ''HEAD''], route_path = ''/docs/oauth2-redirect'',
          endpoint = FrameworkEndpoint ''/docs/oauth2-redirect''\<rparr>,
         \<lparr>methods = [''GET'', ''HEAD''], route_path = ''/redoc'',
          endpoint = FrameworkEndpoint ''/redoc''\<rparr>],
      fw_call =
        (\<lambda>n w. (Inr (if n = ''/openapi.json'' then openapi (the_app w) else PyOpaque n), w))\<rparr>"

text \<open>No route of the framework's own is on the path \<^verbatim>\<open>/\<close>.\<close>

definition root_free :: "framework \<Rightarrow> bool" where
  "root_free fw = (\<forall>r \<in> set (installed fw). route_path r \<noteq> ''/'')"

section \<open>Helper lemmas\<close>

lemma routes_app:
  "routes (app fw) =
     installed fw @ [\<lparr>methods = [''GET''], route_path = ''/'', endpoint = ReadRoot\<rparr>]"
  by (simp add: app_def app_get_def FastAPI_def)

lemma find_over_append:
  "find P (xs @ ys) = (case find P xs of Some x \<Rightarrow> Some x | None \<Rightarrow> find P ys)"
  by (induction xs) simp_all

lemma find_none_installed:
  assumes "root_free fw" and "req_path rq = ''/''"
  shows "find (full_match rq) (installed fw) = None"
    and "find (path_match rq) (installed fw) = None"
  using assms by (auto simp: root_free_def find_None_iff full_match_def path_match_def)

lemma handle_get_root:
  assumes "root_free fw" and "the_app w = app fw"
    and "req_method rq = ''GET''" and "req_path rq = ''/''"
  shows "handle_request fw w rq =
    (\<lparr>status_code = 200,
      content = Some (PyDict [(''message'', PyStr ''Welcome to the FastAPI Example!'')])\<rparr>, w)"
  using assms find_none_installed(1)[OF assms(1) assms(4)]
  by (simp add: handle_request_def routes_app find_over_append full_match_def
      call_endpoint_def read_root_def)


lemma find_none_unmatched:
  assumes "\<forall>r \<in> set (installed fw). \<not> full_match rq r"
    and "req_path rq \<noteq> ''/''"
  shows "find (full_match rq) (routes (app fw)) = None"
  using assms by (auto simp: routes_app find_None_iff full_match_def)

lemma handle_request_unmatched:
  assumes "find (full_match rq) (routes (the_app w)) = None"
  shows "status_code (fst (handle_request fw w rq)) = 405
    \<or> status_code (fst (handle_request fw w rq)) = 404"
  using assms by (simp add: handle_request_def split: option.splits)

lemma handle_request_keeps_app:
  assumes "\<And>n v. the_app (snd (fw_call fw n v)) = the_app v"
  shows "the_app (snd (handle_request fw w rq)) = the_app w"
proof (cases "find (full_match rq) (routes (the_app w))")
  case None
  then show ?thesis
    by (simp add: handle_request_def split: option.splits)
next
  case (Some r)
  show ?thesis
  proof (cases "endpoint r")
    case ReadRoot
    with Some show ?thesis
      by (simp add: handle_request_def call_endpoint_def read_root_def)
  next
    case (FrameworkEndpoint n)
    obtain res v where call: "fw_call fw n w = (res, v)"
      by (cases "fw_call fw n w")
    from assms [of n w] call have "the_app v = the_app w"
      by simp
    with Some FrameworkEndpoint call show ?thesis
      by (simp add: handle_request_def call_endpoint_def split: sum.splits)
  qed
qed

lemma serve_all_keeps_app:
  assumes "\<And>n v. the_app (snd (fw_call fw n v)) = the_app v"
  shows "the_app (snd (serve_all fw w rqs)) = the_app w"
proof (induction rqs arbitrary: w)
  case Nil
  show ?case by simp
next
  case (Cons rq rqs)
  obtain resp w' where step: "handle_request fw w rq = (resp, w')"
    by (cases "handle_request fw w rq")
  from handle_request_keeps_app [OF assms, of w rq] step have "the_app w' = the_app w"
    by simp
  with Cons.IH [of w'] step show ?case
    by (cases "serve_all fw w' rqs") simp
qed

section \<open>The route \<^verbatim>\<open>GET /\<close>\<close>

text \<open>
  C1.  Every request with the method GET and the path \<^verbatim>\<open>/\<close> is answered with the status
  200 and, as its body, the dictionary that \<^verbatim>\<open>read_root\<close> returns: the one entry that maps
  \<^verbatim>\<open>message\<close> to \<^verbatim>\<open>Welcome to the FastAPI Example!\<close>.  This holds in every state of the
  service whose application is the one the module builds, whatever routes the framework
  has installed by itself on other paths.
\<close>

theorem get_root_returns_welcome:
  assumes "root_free fw" and "the_app w = app fw"
    and "req_method rq = ''GET''" and "req_path rq = ''/''"
  shows "fst (read_root w) = Inr (PyDict [(''message'', PyStr ''Welcome to the FastAPI Example!'')])
    \<and> fst (handle_request fw w rq) =
        \<lparr>status_code = 200,
         content = Some (PyDict [(''message'', PyStr ''Welcome to the FastAPI Example!'')])\<rparr>"
  using handle_get_root [OF assms] by (simp add: read_root_def)

theorem get_root_returns_welcome_witness:
  "fst (handle_request fastapi_defaults (started fastapi_defaults)
      \<lparr>req_method = ''GET'', req_path = ''/'', query_string = [], req_headers = [],
       req_body = []\<rparr>) =
     \<lparr>status_code = 200,
      content = Some (PyDict [(''message'', PyStr ''Welcome to the FastAPI Example!'')])\<rparr>"
  using get_root_returns_welcome [of fastapi_defaults "started fastapi_defaults"
      "\<lparr>req_method = ''GET'', req_path = ''/'', query_string = [], req_headers = [],
        req_body = []\<rparr>"]
  by (simp add: root_free_def fastapi_defaults_def started_def)

text \<open>
  C2.  Two runs of the handler give the same answer whatever the requests carry: any two
  requests with the method GET and the path \<^verbatim>\<open>/\<close>, with any query strings, headers and
  bodies, served in any two states of the service, get the same status and the same body;
  and \<^verbatim>\<open>read_root\<close> itself returns the same value in any two states.
\<close>

theorem get_root_two_runs_equal:
  assumes "root_free fw" and "the_app w1 = app fw" and "the_app w2 = app fw"
    and "req_method rq1 = ''GET''" and "req_path rq1 = ''/''"
    and "req_method rq2 = ''GET''" and "req_path rq2 = ''/''"
  shows "fst (handle_request fw w1 rq1) = fst (handle_request fw w2 rq2)
    \<and> fst (read_root w1) = fst (read_root w2)"
  using handle_get_root [OF assms(1) assms(2) assms(4) assms(5)]
    handle_get_root [OF assms(1) assms(3) assms(6) assms(7)]
  by (simp add: read_root_def)

theorem get_root_two_runs_equal_witness:
  "fst (handle_request fastapi_defaults (started fastapi_defaults)
      \<lparr>req_method = ''GET'', req_path = ''/'', query_string = [], req_headers = [],
       req_body = []\<rparr>) =
   fst (handle_request fastapi_defaults
      ((started fastapi_defaults)\<lparr>logged := [''earlier line'']\<rparr>)
      \<lparr>req_method = ''GET'', req_path = ''/'', query_string = ''x=1'',
       req_headers = [(''accept'', ''text/html'')], req_body = ''ignored''\<rparr>)"
  using get_root_two_runs_equal [of fastapi_defaults "started fastapi_defaults"
      "(started fastapi_defaults)\<lparr>logged := [''earlier line'']\<rparr>"
      "\<lparr>req_method = ''GET'', req_path = ''/'', query_string = [], req_headers = [],
        req_body = []\<rparr>"
      "\<lparr>req_method = ''GET'', req_path = ''/'', query_string = ''x=1'',
        req_headers = [(''accept'', ''text/html'')], req_body = ''ignored''\<rparr>"]
  by (simp add: root_free_def fastapi_defaults_def started_def)

text \<open>
  C3.  The same request \<^verbatim>\<open>GET /\<close> served \<open>n\<close> times in a row gets \<open>n\<close> times the same
  response, and the state of the service after the \<open>n\<close> calls is the state before
  them.
\<close>

theorem get_root_idempotent:
  assumes "root_free fw" and "the_app w = app fw"
    and "req_method rq = ''GET''" and "req_path rq = ''/''"
  shows "serve_all fw w (replicate n rq) =
    (replicate n
       \<lparr>status_code = 200,
        content = Some (PyDict [(''message'', PyStr ''Welcome to the FastAPI Example!'')])\<rparr>,
     w)"
proof (induction n)
  case 0
  show ?case by simp
next
  case (Suc n)
  from handle_get_root [OF assms] Suc.IH show ?case
    by simp
qed

theorem get_root_idempotent_witness:
  "serve_all fastapi_defaults (started fastapi_defaults)
     (replicate 3
        \<lparr>req_method = ''GET'', req_path = ''/'', query_string = [], req_headers = [],
         req_body = []\<rparr>) =
   (replicate 3
      \<lparr>status_code = 200,
       content = Some (PyDict [(''message'', PyStr ''Welcome to the FastAPI Example!'')])\<rparr>,
    started fastapi_defaults)"
  using get_root_idempotent [of fastapi_defaults "started fastapi_defaults"
      "\<lparr>req_method = ''GET'', req_path = ''/'', query_string = [], req_headers = [],
        req_body = []\<rparr>" 3]
  by (simp add: root_free_def fastapi_defaults_def started_def)

text \<open>
  C4.  The handler leaves the state as it found it: \<^verbatim>\<open>read_root\<close> returns the state it was
  given, and serving \<^verbatim>\<open>GET /\<close> changes neither the application object, nor the log, nor
  the record of other input and output.  What the call produces is the response returned.
\<close>

theorem get_root_no_side_effect:
  assumes "root_free fw" and "the_app w = app fw"
    and "req_method rq = ''GET''" and "req_path rq = ''/''"
  shows "snd (read_root w) = w
    \<and> snd (handle_request fw w rq) = w
    \<and> logged (snd (handle_request fw w rq)) = logged w
    \<and> io_trace (snd (handle_request fw w rq)) = io_trace w
    \<and> the_app (snd (handle_request fw w rq)) = the_app w"
  using handle_get_root [OF assms] by (simp add: read_root_def)

theorem get_root_no_side_effect_witness:
  "snd (handle_request fastapi_defaults
      ((started fastapi_defaults)\<lparr>logged := [''earlier line''], io_trace := [''earlier read'']\<rparr>)
      \<lparr>req_method = ''GET'', req_path = ''/'', query_string = [], req_headers = [],
       req_body = []\<rparr>) =
   (started fastapi_defaults)\<lparr>logged := [''earlier line''], io_trace := [''earlier read'']\<rparr>"
  using get_root_no_side_effect [of fastapi_defaults
      "(started fastapi_defaults)\<lparr>logged := [''earlier line''], io_trace := [''earlier read'']\<rparr>"
      "\<lparr>req_method = ''GET'', req_path = ''/'', query_string = [], req_headers = [],
        req_body = []\<rparr>"]
  by (simp add: root_free_def fastapi_defaults_def started_def)

section \<open>Requests that the route does not match\<close>

text \<open>
  C5, as stated, fails: a request on a path other than \<^verbatim>\<open>/\<close> is not always refused.  The
  constructor is called without \<^verbatim>\<open>docs_url\<close>, \<^verbatim>\<open>redoc_url\<close> and \<^verbatim>\<open>openapi_url\<close>, so the
  documentation routes of the framework stay in the table, and \<^verbatim>\<open>GET /docs\<close> is answered
  with the status 200.
\<close>

theorem other_path_counterexample:
  "req_path \<lparr>req_method = ''GET'', req_path = ''/docs'', query_string = [],
             req_headers = [], req_body = []\<rparr> \<noteq> ''/''
   \<and> status_code (fst (handle_request fastapi_defaults (started fastapi_defaults)
        \<lparr>req_method = ''GET'', req_path = ''/docs'', query_string = [],
         req_headers = [], req_body = []\<rparr>)) = 200"
  by (simp add: handle_request_def started_def routes_app fastapi_defaults_def
      full_match_def call_endpoint_def)

text \<open>
  C5, amended.  A request whose path is not \<^verbatim>\<open>/\<close> and which none of the routes that the
  framework has installed by itself matches, in path and method, is answered with a status
  that is not 200.  The module adds no route on any path but \<^verbatim>\<open>/\<close>.
\<close>

theorem unmatched_request_not_ok:
  assumes "the_app w = app fw"
    and "req_path rq \<noteq> ''/''"
    and "\<forall>r \<in> set (installed fw). \<not> full_match rq r"
  shows "status_code (fst (handle_request fw w rq)) \<noteq> 200"
proof -
  from assms(1) find_none_unmatched [OF assms(3) assms(2)]
  have "find (full_match rq) (routes (the_app w)) = None"
    by simp
  from handle_request_unmatched [OF this, of fw] show ?thesis
    by auto
qed

theorem unmatched_request_not_ok_witness:
  "status_code (fst (handle_request fastapi_defaults (started fastapi_defaults)
      \<lparr>req_method = ''GET'', req_path = ''/nonexistent'', query_string = [],
       req_headers = [], req_body = []\<rparr>)) \<noteq> 200
   \<and> status_code (fst (handle_request fastapi_defaults (started fastapi_defaults)
      \<lparr>req_method = ''POST'', req_path = ''/docs'', query_string = [],
       req_headers = [], req_body = []\<rparr>)) \<noteq> 200"
  using unmatched_request_not_ok [of "started fastapi_defaults" fastapi_defaults
      "\<lparr>req_method = ''GET'', req_path = ''/nonexistent'', query_string = [],
        req_headers = [], req_body = []\<rparr>"]
    unmatched_request_not_ok [of "started fastapi_defaults" fastapi_defaults
      "\<lparr>req_method = ''POST'', req_path = ''/docs'', query_string = [],
        req_headers = [], req_body = []\<rparr>"]
  by (simp add: fastapi_defaults_def started_def full_match_def)

text \<open>
  C6.  A request on the path \<^verbatim>\<open>/\<close> with a method other than GET matches the path of the
  route and not its method: it is answered with the status 405, which is not 200, and the
  handler is not run.
\<close>

theorem other_method_on_root_not_allowed:
  assumes "root_free fw" and "the_app w = app fw"
    and "req_path rq = ''/''" and "req_method rq \<noteq> ''GET''"
  shows "handle_request fw w rq = (\<lparr>status_code = 405, content = None\<rparr>, w)
    \<and> status_code (fst (handle_request fw w rq)) \<noteq> 200"
  using assms find_none_installed [OF assms(1) assms(3)]
  by (simp add: handle_request_def routes_app find_over_append full_match_def path_match_def)

theorem other_method_on_root_not_allowed_witness:
  "handle_request fastapi_defaults (started fastapi_defaults)
     \<lparr>req_method = ''POST'', req_path = ''/'', query_string = [],
      req_headers = [], req_body = ''{}''\<rparr> =
   (\<lparr>status_code = 405, content = None\<rparr>, started fastapi_defaults)"
  using other_method_on_root_not_allowed [of fastapi_defaults "started fastapi_defaults"
      "\<lparr>req_method = ''POST'', req_path = ''/'', query_string = [],
        req_headers = [], req_body = ''{}''\<rparr>"]
  by (simp add: root_free_def fastapi_defaults_def started_def)

section \<open>The module as a whole\<close>

text \<open>
  C7.  Run as a script (\<^verbatim>\<open>__name__\<close> is \<^verbatim>\<open>__main__\<close>), the module starts one server, for
  its application, on the host \<^verbatim>\<open>0.0.0.0\<close> and the port 8000.  Imported under any other
  name it starts none, and all it leaves is the application with its route.  Neither the
  command line, nor the environment variables, nor any file has a part in either.
\<close>

theorem main_starts_server_only_as_script:
  "(dunder_name p = ''__main__'' \<longrightarrow>
      effects (main fw p) = [UvicornRun (app fw) ''0.0.0.0'' 8000])
   \<and> (dunder_name p \<noteq> ''__main__'' \<longrightarrow>
      effects (main fw p) = []
      \<and> routes (global_app (main fw p)) =
          installed fw @ [\<lparr>methods = [''GET''], route_path = ''/'', endpoint = ReadRoot\<rparr>])
   \<and> main fw (p\<lparr>argv := a, environ := e, files := c\<rparr>) = main fw p"
  by (simp add: main_def routes_app)

theorem main_starts_server_only_as_script_witness:
  "effects (main fastapi_defaults
      \<lparr>dunder_name = ''__main__'', argv = [''main.py'', ''--port'', ''9000''],
       environ = [(''PORT'', ''9000'')],
        files = [(''.env'', ''PORT=9000'')]\<rparr>) =
     [UvicornRun (app fastapi_defaults) ''0.0.0.0'' 8000]
   \<and> effects (main fastapi_defaults
      \<lparr>dunder_name = ''apps.api.main'', argv = [], environ = [], files = []\<rparr>) = []
   \<and> routes (global_app (main fastapi_defaults
      \<lparr>dunder_name = ''apps.api.main'', argv = [], environ = [], files = []\<rparr>)) =
     installed fastapi_defaults @
       [\<lparr>methods = [''GET''], route_path = ''/'', endpoint = ReadRoot\<rparr>]"
  using main_starts_server_only_as_script [of
      "\<lparr>dunder_name = ''__main__'', argv = [''main.py'', ''--port'', ''9000''],
        environ = [(''PORT'', ''9000'')],
        files = [(''.env'', ''PORT=9000'')]\<rparr>" fastapi_defaults]
    main_starts_server_only_as_script [of
      "\<lparr>dunder_name = ''apps.api.main'', argv = [], environ = [], files = []\<rparr>" fastapi_defaults]
  by simp

text \<open>
  C8.  The module registers exactly one route: the constructor leaves the table as the
  framework fills it, and after the module has run the table is that one followed by the
  single route for GET on \<^verbatim>\<open>/\<close> with the handler \<^verbatim>\<open>read_root\<close>.  The table stays so
  whatever requests are served afterwards, as long as the handlers of the framework's own
  routes leave the application object alone.
\<close>

theorem single_route_registered:
  assumes "\<forall>n v. the_app (snd (fw_call fw n v)) = the_app v"
    and "the_app w = global_app (main fw p)"
  shows "routes (FastAPI fw t d v) = installed fw
    \<and> routes (global_app (main fw p)) =
        installed fw @ [\<lparr>methods = [''GET''], route_path = ''/'', endpoint = ReadRoot\<rparr>]
    \<and> routes (the_app (snd (serve_all fw w rqs))) =
        installed fw @ [\<lparr>methods = [''GET''], route_path = ''/'', endpoint = ReadRoot\<rparr>]"
proof -
  from assms(1) have keep: "\<And>n v. the_app (snd (fw_call fw n v)) = the_app v"
    by simp
  have "the_app (snd (serve_all fw w rqs)) = app fw"
    using serve_all_keeps_app [OF keep, of w rqs] assms(2) by (simp add: main_def)
  then show ?thesis
    by (simp add: FastAPI_def main_def routes_app)
qed

theorem single_route_registered_witness:
  "routes (the_app (snd (serve_all fastapi_defaults (started fastapi_defaults)
      [\<lparr>req_method = ''GET'', req_path = ''/'', query_string = [], req_headers = [],
        req_body = []\<rparr>,
       \<lparr>req_method = ''GET'', req_path = ''/docs'', query_string = [], req_headers = [],
        req_body = []\<rparr>,
       \<lparr>req_method = ''POST'', req_path = ''/'', query_string = [], req_headers = [],
        req_body = []\<rparr>]))) =
     installed fastapi_defaults @
       [\<lparr>methods = [''GET''], route_path = ''/'', endpoint = ReadRoot\<rparr>]"
  using single_route_registered [of fastapi_defaults "started fastapi_defaults"
      "\<lparr>dunder_name = ''__main__'', argv = [], environ = [], files = []\<rparr>" _ _ _
      "[\<lparr>req_method = ''GET'', req_path = ''/'', query_string = [], req_headers = [],
         req_body = []\<rparr>,
        \<lparr>req_method = ''GET'', req_path = ''/docs'', query_string = [], req_headers = [],
         req_body = []\<rparr>,
        \<lparr>req_method = ''POST'', req_path = ''/'', query_string = [], req_headers = [],
         req_body = []\<rparr>]"]
  by (simp add: fastapi_defaults_def started_def main_def)

text \<open>
  C9.  \<^verbatim>\<open>read_root\<close> returns in every state, and what it returns is the dictionary, never an
  error: the error branch is not taken, by the function itself or when the framework calls
  it as the handler of the route.
\<close>

theorem read_root_never_raises:
  "read_root w = (Inr (PyDict [(''message'', PyStr ''Welcome to the FastAPI Example!'')]), w)
   \<and> (\<forall>e. fst (read_root w) \<noteq> Inl e)
   \<and> (\<forall>e. fst (call_endpoint fw ReadRoot w) \<noteq> Inl e)"
  by (simp add: read_root_def call_endpoint_def)

text \<open>
  C10.  The application is built with the title \<^verbatim>\<open>FastAPI Example\<close>, the description
  \<^verbatim>\<open>A simple FastAPI application example\<close> and the version \<^verbatim>\<open>1.0.0\<close>, whatever the
  framework installs and however the module is run; and a client can read the three of
  them: with the routes FastAPI installs by default, \<^verbatim>\<open>GET /openapi.json\<close> is answered
  with the status 200 and a document whose \<^verbatim>\<open>info\<close> object has them under the keys
  \<^verbatim>\<open>title\<close>, \<^verbatim>\<open>description\<close> and \<^verbatim>\<open>version\<close>.
\<close>

theorem app_metadata_fixed:
  assumes "the_app w = global_app (main fastapi_defaults q)"
    and "req_method rq = ''GET''" and "req_path rq = ''/openapi.json''"
  shows "title (global_app (main fw p)) = ''FastAPI Example''
    \<and> description (global_app (main fw p)) = ''A simple FastAPI application example''
    \<and> version (global_app (main fw p)) = ''1.0.0''
    \<and> status_code (fst (handle_request fastapi_defaults w rq)) = 200
    \<and> (\<exists>doc info.
          content (fst (handle_request fastapi_defaults w rq)) = Some doc
          \<and> py_get doc ''info'' = Some info
          \<and> py_get info ''title'' = Some (PyStr ''FastAPI Example'')
          \<and> py_get info ''description'' = Some (PyStr ''A simple FastAPI application example'')
          \<and> py_get info ''version'' = Some (PyStr ''1.0.0''))"
proof -
  have meta: "title (app fw) = ''FastAPI Example''"
    "description (app fw) = ''A simple FastAPI application example''"
    "version (app fw) = ''1.0.0''" for fw
    by (simp_all add: app_def app_get_def FastAPI_def)
  from assms have resp: "fst (handle_request fastapi_defaults w rq) =
      \<lparr>status_code = 200, content = Some (openapi (app fastapi_defaults))\<rparr>"
    by (simp add: handle_request_def main_def routes_app full_match_def call_endpoint_def
        fastapi_defaults_def)
  have "py_get (openapi (app fastapi_defaults)) ''info'' =
      Some (PyDict
        [(''title'', PyStr ''FastAPI Example''),
         (''description'', PyStr ''A simple FastAPI application example''),
         (''version'', PyStr ''1.0.0'')])"
    by (simp add: openapi_def meta)
  with resp meta show ?thesis
    by (simp add: main_def)
qed

theorem app_metadata_fixed_witness:
  "fst (handle_request fastapi_defaults (started fastapi_defaults)
      \<lparr>req_method = ''GET'', req_path = ''/openapi.json'', query_string = [],
       req_headers = [], req_body = []\<rparr>) =
     \<lparr>status_code = 200,
      content = Some (PyDict
        [(''openapi'', PyOpaque ''openapi''),
         (''info'',
          PyDict
            [(''title'', PyStr ''FastAPI Example''),
             (''description'', PyStr ''A simple FastAPI application example''),
             (''version'', PyStr ''1.0.0'')]),
         (''paths'', PyOpaque ''paths'')])\<rparr>"
  using app_metadata_fixed [of "started fastapi_defaults"
      "\<lparr>dunder_name = ''__main__'', argv = [], environ = [], files = []\<rparr>"
      "\<lparr>req_method = ''GET'', req_path = ''/openapi.json'', query_string = [],
        req_headers = [], req_body = []\<rparr>" fastapi_defaults
      "\<lparr>dunder_name = ''__main__'', argv = [], environ = [], files = []\<rparr>"]
  by (simp add: started_def main_def handle_request_def routes_app full_match_def
      call_endpoint_def fastapi_defaults_def openapi_def app_def app_get_def FastAPI_def)

end
